theory Spec2Isabelle
  imports Main
begin

section \<open>The MCP tools manager of @tm/ai-tools and its Context7 adapter\<close>

text \<open>
  A shallow embedding of \<^verbatim>\<open>context7/client.ts\<close> (getApiKey, createContext7Tools,
  isContext7Available) and of \<^verbatim>\<open>mcp-tools-manager.ts\<close> (createMCPTools,
  getAvailableMCPTools).

  A thrown exception, or a rejected promise of an async function, is the left injection
  of a sum; a value returned, or a fulfilled promise, is the right one. The process
  environment and the external MCP server are fields of the system state, which every
  operation takes and returns. The state also carries a call trace, which the source does
  not have: it records each invocation of the adapter's operations, of the client factory,
  of console.warn and of a client's close, so that statements about what is (not) invoked
  can be made.
\<close>

subsection \<open>Data model\<close>

text \<open>The values thrown: the adapter's own error class, and whatever the MCP client
  library throws while connecting, listing tools or closing.\<close>

datatype error =
    Context7ApiKeyError
  | ActivationError string
  | CloseError string

text \<open>A tool descriptor is opaque to this code (\<^verbatim>\<open>unknown\<close>).\<close>

type_synonym tool = string

type_synonym tool_record = "string \<rightharpoonup> tool"

text \<open>\<^verbatim>\<open>interface Context7Config { apiKey?: string }\<close>\<close>

record Context7Config =
  apiKey :: "string option"

text \<open>\<^verbatim>\<open>context7?: Context7Config | boolean\<close>\<close>

datatype context7_entry = Flag bool | Settings Context7Config

record MCPToolsManagerConfig =
  context7 :: "context7_entry option"

text \<open>A settled promise of type \<^verbatim>\<open>Promise<void>\<close>: the instant at which it
  settles and the reason of its rejection, if it is rejected.\<close>

type_synonym settled = "nat \<times> error option"

text \<open>A connected MCP client, as far as this code uses it: what \<^verbatim>\<open>client.tools()\<close>
  yields and how \<^verbatim>\<open>client.close()\<close> settles.\<close>

record client =
  client_tools :: "error + tool_record"
  client_close :: settled

text \<open>The two closures of type \<^verbatim>\<open>() => Promise<void>\<close> that the source creates:
  \<^verbatim>\<open>async () => { await client.close(); }\<close> of createContext7Tools, over its client,
  and \<^verbatim>\<open>async () => { await Promise.all(closeFunctions.map((fn) => fn())); }\<close> of
  createMCPTools, over its list of retained close functions.\<close>

datatype closeFn = Context7Close client | ManagerClose "closeFn list"

text \<open>A callback \<^verbatim>\<open>() => void\<close> is given by what calling it does: return, or throw.\<close>

type_synonym callback = "error option"

record Context7ToolsOptions =
  config :: "Context7Config option"
  onReady :: "callback option"
  onError :: "(error \<Rightarrow> callback) option"

text \<open>\<^verbatim>\<open>Context7ToolsResult\<close> has the fields tools and close; \<^verbatim>\<open>MCPToolsResult\<close> has
  the same two, of the same types, and enabledSources.\<close>

record Context7ToolsResult =
  tools :: tool_record
  close :: closeFn

record MCPToolsResult = Context7ToolsResult +
  enabledSources :: "string list"

datatype event =
    IsAvailableCalled "Context7Config option"
  | CreateToolsCalled "Context7Config option"
  | ClientCreated string "string list"
  | Warned string error
  | ClientCloseCalled client

record sys =
  CONTEXT7_API_KEY :: "string option"
  mcp_server :: "string \<Rightarrow> string list \<Rightarrow> error + client"
  trace :: "event list"

subsection \<open>Control flow: return, throw, sequencing, try/catch\<close>

type_synonym 'a prog = "sys \<Rightarrow> (error + 'a) \<times> sys"

definition ret :: "'a \<Rightarrow> 'a prog" where
  "ret v s = (Inr v, s)"

definition throw :: "error \<Rightarrow> 'a prog" where
  "throw e s = (Inl e, s)"

definition then_do :: "'a prog \<Rightarrow> ('a \<Rightarrow> 'b prog) \<Rightarrow> 'b prog" where
  "then_do m f s = (case m s of (Inl e, s') \<Rightarrow> (Inl e, s') | (Inr v, s') \<Rightarrow> f v s')"

definition try_catch :: "'a prog \<Rightarrow> (error \<Rightarrow> 'a prog) \<Rightarrow> 'a prog" where
  "try_catch body handler s =
     (case body s of (Inl e, s') \<Rightarrow> handler e s' | (Inr v, s') \<Rightarrow> (Inr v, s'))"

definition emit :: "event \<Rightarrow> unit prog" where
  "emit ev s = (Inr (), s\<lparr>trace := trace s @ [ev]\<rparr>)"

text \<open>\<^verbatim>\<open>a ?? b\<close>: the right operand only when the left one is undefined.\<close>

definition nullish :: "'a option \<Rightarrow> 'a option \<Rightarrow> 'a option" where
  "nullish a b = (case a of Some v \<Rightarrow> Some v | None \<Rightarrow> b)"

text \<open>\<^verbatim>\<open>console.warn(message, error)\<close>\<close>

definition console_warn :: "string \<Rightarrow> error \<Rightarrow> unit prog" where
  "console_warn msg e = emit (Warned msg e)"

text \<open>\<^verbatim>\<open>new Experimental_StdioMCPTransport({command, args})\<close> followed by
  \<^verbatim>\<open>await experimental_createMCPClient({transport})\<close>: the server decides.\<close>

definition experimental_createMCPClient :: "string \<Rightarrow> string list \<Rightarrow> client prog" where
  "experimental_createMCPClient command args =
     then_do (emit (ClientCreated command args))
       (\<lambda>_ s. (mcp_server s command args, s))"

subsection \<open>context7/client.ts\<close>

text \<open>
\<^verbatim>\<open>
function getApiKey(config?: Context7Config): string {
    const apiKey = config?.apiKey ?? process.env.CONTEXT7_API_KEY;
    if (!apiKey) { throw new Context7ApiKeyError(); }
    return apiKey;
}
\<close>
  \<^verbatim>\<open>!apiKey\<close> holds of undefined and of the empty string.
\<close>

definition getApiKey :: "Context7Config option \<Rightarrow> string prog" where
  "getApiKey cfg s =
     (case nullish (Option.bind cfg apiKey) (CONTEXT7_API_KEY s) of
        None \<Rightarrow> throw Context7ApiKeyError s
      | Some k \<Rightarrow> if k = [] then throw Context7ApiKeyError s else ret k s)"

text \<open>\<^verbatim>\<open>options?.onReady?.()\<close>\<close>

definition call_onReady :: "Context7ToolsOptions option \<Rightarrow> unit prog" where
  "call_onReady options =
     (case Option.bind options onReady of
        None \<Rightarrow> ret ()
      | Some None \<Rightarrow> ret ()
      | Some (Some e) \<Rightarrow> throw e)"

text \<open>\<^verbatim>\<open>await client.tools()\<close>\<close>

definition list_tools :: "client \<Rightarrow> tool_record prog" where
  "list_tools c s = (client_tools c, s)"

text \<open>
\<^verbatim>\<open>
export async function createContext7Tools(options?) {
    const apiKey = getApiKey(options?.config);
    const transport = new Experimental_StdioMCPTransport({
        command: 'npx',
        args: ['-y', '@upstash/context7-mcp', '--api-key', apiKey] });
    const client = await experimental_createMCPClient({ transport });
    options?.onReady?.();
    const tools = await client.tools();
    return { tools, close: async () => { await client.close(); } };
}
\<close>
\<close>

definition createContext7Tools :: "Context7ToolsOptions option \<Rightarrow> Context7ToolsResult prog" where
  "createContext7Tools options =
     then_do (emit (CreateToolsCalled (Option.bind options config))) (\<lambda>_.
     then_do (getApiKey (Option.bind options config)) (\<lambda>key.
     then_do (experimental_createMCPClient ''npx''
                [''-y'', ''@upstash/context7-mcp'', ''--api-key'', key]) (\<lambda>c.
     then_do (call_onReady options) (\<lambda>_.
     then_do (list_tools c) (\<lambda>ts.
     ret \<lparr>tools = ts, close = Context7Close c\<rparr>)))))"

text \<open>
\<^verbatim>\<open>
export function isContext7Available(config?: Context7Config): boolean {
    try { getApiKey(config); return true; } catch { return false; }
}
\<close>
\<close>

definition isContext7Available :: "Context7Config option \<Rightarrow> bool prog" where
  "isContext7Available cfg =
     then_do (emit (IsAvailableCalled cfg)) (\<lambda>_.
     try_catch (then_do (getApiKey cfg) (\<lambda>_. ret True)) (\<lambda>_. ret False))"

subsection \<open>mcp-tools-manager.ts\<close>

text \<open>
\<^verbatim>\<open>
const context7Config =
    config?.context7 === true ? {}
    : config?.context7 === false ? undefined
    : config?.context7;
\<close>
\<close>

definition context7Config :: "MCPToolsManagerConfig option \<Rightarrow> Context7Config option" where
  "context7Config cfg =
     (case Option.bind cfg context7 of
        Some (Flag True) \<Rightarrow> Some \<lparr>apiKey = None\<rparr>
      | Some (Flag False) \<Rightarrow> None
      | Some (Settings c) \<Rightarrow> Some c
      | None \<Rightarrow> None)"

text \<open>
\<^verbatim>\<open>
const shouldEnableContext7 =
    config?.context7 !== false &&
    (config?.context7 !== undefined || isContext7Available(context7Config));
\<close>
  Both operators evaluate their right operand only when the left one does not decide.
\<close>

definition shouldEnableContext7 :: "MCPToolsManagerConfig option \<Rightarrow> bool prog" where
  "shouldEnableContext7 cfg =
     (if Option.bind cfg context7 = Some (Flag False) then ret False
      else if Option.bind cfg context7 = None then isContext7Available (context7Config cfg)
      else ret True)"

text \<open>
\<^verbatim>\<open>
if (shouldEnableContext7 && isContext7Available(context7Config)) {
    try {
        const context7 = await createContext7Tools({ config: context7Config });
        Object.assign(tools, context7.tools);
        closeFunctions.push(context7.close);
        enabledSources.push('context7');
    } catch (error) {
        console.warn('Failed to connect to Context7 MCP server:', error);
    }
}
return { tools, enabledSources,
         close: async () => { await Promise.all(closeFunctions.map((fn) => fn())); } };
\<close>
  The three locals start empty; the only statement of the try block that can throw is
  its first, so the handler sees them empty.
\<close>

definition createMCPTools :: "MCPToolsManagerConfig option \<Rightarrow> MCPToolsResult prog" where
  "createMCPTools cfg =
     then_do (shouldEnableContext7 cfg) (\<lambda>should.
     then_do (if should then isContext7Available (context7Config cfg) else ret False) (\<lambda>go.
     then_do
       (if go then
          try_catch
            (then_do (createContext7Tools
                        (Some \<lparr>config = context7Config cfg, onReady = None, onError = None\<rparr>))
               (\<lambda>c7. ret (Map.empty ++ tools c7, [close c7], [''context7''])))
            (\<lambda>e. then_do (console_warn ''Failed to connect to Context7 MCP server:'' e)
               (\<lambda>_. ret (Map.empty, [], [])))
        else ret (Map.empty, [], []))
       (\<lambda>(ts, closeFunctions, sources).
          ret \<lparr>tools = ts, close = ManagerClose closeFunctions, enabledSources = sources\<rparr>)))"

text \<open>
\<^verbatim>\<open>
export function getAvailableMCPTools(): string[] {
    const available: string[] = [];
    if (isContext7Available()) { available.push('context7'); }
    return available;
}
\<close>
\<close>

definition getAvailableMCPTools :: "string list prog" where
  "getAvailableMCPTools =
     then_do (isContext7Available None) (\<lambda>b.
     ret (if b then [] @ [''context7''] else []))"

subsection \<open>Calling a close function\<close>

text \<open>\<^verbatim>\<open>Promise.all\<close> is fulfilled once every promise is, and rejected as soon as one
  is, with that one's reason: the earliest rejection, the first in list order among
  equally early ones.\<close>

fun first_rejection :: "settled list \<Rightarrow> (nat \<times> error) option" where
  "first_rejection [] = None"
| "first_rejection ((t, None) # ps) = first_rejection ps"
| "first_rejection ((t, Some e) # ps) =
     (case first_rejection ps of
        None \<Rightarrow> Some (t, e)
      | Some (t', e') \<Rightarrow> if t' < t then Some (t', e') else Some (t, e))"

definition promise_all :: "settled list \<Rightarrow> settled" where
  "promise_all ps =
     (case first_rejection ps of
        Some (t, e) \<Rightarrow> (t, Some e)
      | None \<Rightarrow> (fold max (map fst ps) 0, None))"

text \<open>Calling a close function runs it up to its first await: a client's close calls
  \<^verbatim>\<open>client.close()\<close>; the manager's close calls each retained function in turn
  (\<^verbatim>\<open>closeFunctions.map((fn) => fn())\<close>) and only then awaits them all.\<close>

fun close_calls :: "closeFn \<Rightarrow> event list" where
  "close_calls (Context7Close c) = [ClientCloseCalled c]"
| "close_calls (ManagerClose fns) = concat (map close_calls fns)"

fun close_settles :: "closeFn \<Rightarrow> settled" where
  "close_settles (Context7Close c) = client_close c"
| "close_settles (ManagerClose fns) = promise_all (map close_settles fns)"

text \<open>\<^verbatim>\<open>await fn()\<close>\<close>

definition call_close :: "closeFn \<Rightarrow> unit prog" where
  "call_close fn s =
     (case snd (close_settles fn) of None \<Rightarrow> Inr () | Some e \<Rightarrow> Inl e,
      s\<lparr>trace := trace s @ close_calls fn\<rparr>)"

section \<open>Properties\<close>

subsection \<open>Auxiliary facts\<close>

lemmas prog_defs = ret_def throw_def then_do_def try_catch_def emit_def nullish_def
  console_warn_def experimental_createMCPClient_def call_onReady_def list_tools_def

lemma getApiKey_state: "snd (getApiKey cfg s) = s"
  by (simp add: getApiKey_def prog_defs split: option.splits)

lemma getApiKey_trace: "fst (getApiKey cfg (s\<lparr>trace := t\<rparr>)) = fst (getApiKey cfg s)"
  by (simp add: getApiKey_def prog_defs split: option.splits)

lemma getApiKey_error: "fst (getApiKey cfg s) = Inl e \<Longrightarrow> e = Context7ApiKeyError"
  by (auto simp add: getApiKey_def prog_defs split: option.splits if_splits)

text \<open>The probe returns a boolean and leaves one entry in the call trace.\<close>

lemma isContext7Available_eq:
  "isContext7Available cfg s =
     (Inr (\<not> isl (fst (getApiKey cfg s))), s\<lparr>trace := trace s @ [IsAvailableCalled cfg]\<rparr>)"
  by (simp add: isContext7Available_def getApiKey_def prog_defs split: option.splits)

text \<open>Activation without an onReady callback, as the manager calls it.\<close>

lemma createContext7Tools_eq:
  "createContext7Tools (Some \<lparr>config = c, onReady = None, onError = oe\<rparr>) s =
     (case fst (getApiKey c s) of
        Inl e \<Rightarrow> (Inl e, s\<lparr>trace := trace s @ [CreateToolsCalled c]\<rparr>)
      | Inr k \<Rightarrow>
          (let args = [''-y'', ''@upstash/context7-mcp'', ''--api-key'', k] in
           (case mcp_server s ''npx'' args of
              Inl e \<Rightarrow> Inl e
            | Inr cl \<Rightarrow> (case client_tools cl of Inl e \<Rightarrow> Inl e
                        | Inr ts \<Rightarrow> Inr \<lparr>tools = ts, close = Context7Close cl\<rparr>),
            s\<lparr>trace := trace s @ [CreateToolsCalled c, ClientCreated ''npx'' args]\<rparr>)))"
  by (simp add: createContext7Tools_def getApiKey_def prog_defs split: option.splits sum.splits)

lemma createContext7Tools_fst_trace:
  "fst (createContext7Tools (Some \<lparr>config = c, onReady = None, onError = oe\<rparr>) (s\<lparr>trace := t\<rparr>)) =
   fst (createContext7Tools (Some \<lparr>config = c, onReady = None, onError = oe\<rparr>) s)"
  by (simp add: createContext7Tools_eq getApiKey_trace Let_def split: sum.splits)

lemma context7Config_true:
  "context7Config (Some \<lparr>context7 = Some (Flag True)\<rparr>) = Some \<lparr>apiKey = None\<rparr>"
  by (simp add: context7Config_def)

lemma context7Config_settings:
  "context7Config (Some \<lparr>context7 = Some (Settings c)\<rparr>) = Some c"
  by (simp add: context7Config_def)

lemma context7Config_absent:
  "Option.bind cfg context7 = None \<Longrightarrow> context7Config cfg = None"
  by (simp add: context7Config_def)

text \<open>The three ways through createMCPTools: the entry is \<^verbatim>\<open>false\<close>; the probe fails;
  the probe succeeds and activation is attempted.\<close>

lemma createMCPTools_disabled:
  "context7 m = Some (Flag False) \<Longrightarrow>
   createMCPTools (Some m) s =
     (Inr \<lparr>tools = Map.empty, close = ManagerClose [], enabledSources = []\<rparr>, s)"
  by (simp add: createMCPTools_def shouldEnableContext7_def prog_defs)

lemma createMCPTools_unavailable:
  "Option.bind cfg context7 \<noteq> Some (Flag False) \<Longrightarrow>
   isl (fst (getApiKey (context7Config cfg) s)) \<Longrightarrow>
   createMCPTools cfg s =
     (Inr \<lparr>tools = Map.empty, close = ManagerClose [], enabledSources = []\<rparr>,
      s\<lparr>trace := trace s @ [IsAvailableCalled (context7Config cfg)]\<rparr>)"
  by (simp add: createMCPTools_def shouldEnableContext7_def isContext7Available_eq
        getApiKey_trace ret_def then_do_def)

lemma createMCPTools_available:
  "Option.bind cfg context7 \<noteq> Some (Flag False) \<Longrightarrow>
   \<not> isl (fst (getApiKey (context7Config cfg) s)) \<Longrightarrow>
   createMCPTools cfg s =
     (case createContext7Tools
             (Some \<lparr>config = context7Config cfg, onReady = None, onError = None\<rparr>)
             (s\<lparr>trace := trace s @
                (if Option.bind cfg context7 = None
                 then [IsAvailableCalled (context7Config cfg), IsAvailableCalled (context7Config cfg)]
                 else [IsAvailableCalled (context7Config cfg)])\<rparr>) of
        (Inl e, s2) \<Rightarrow>
          (Inr \<lparr>tools = Map.empty, close = ManagerClose [], enabledSources = []\<rparr>,
           s2\<lparr>trace := trace s2 @ [Warned ''Failed to connect to Context7 MCP server:'' e]\<rparr>)
      | (Inr c7, s2) \<Rightarrow>
          (Inr \<lparr>tools = tools c7, close = ManagerClose [close c7],
                enabledSources = [''context7'']\<rparr>, s2))"
  by (simp add: createMCPTools_def shouldEnableContext7_def isContext7Available_eq
        getApiKey_trace ret_def then_do_def try_catch_def console_warn_def emit_def
      split: prod.splits sum.splits)

text \<open>The key: an explicit non-empty one is returned as it is, and two environments can
  give different outcomes only when the explicit key is undefined.\<close>

lemma getApiKey_explicit:
  "apiKey c = Some k \<Longrightarrow> k \<noteq> [] \<Longrightarrow> getApiKey (Some c) s = (Inr k, s)"
  by (simp add: getApiKey_def prog_defs)

lemma getApiKey_env_only_if_undefined:
  "fst (getApiKey cfg (s\<lparr>CONTEXT7_API_KEY := env\<rparr>)) \<noteq> fst (getApiKey cfg (s\<lparr>CONTEXT7_API_KEY := env'\<rparr>))
   \<Longrightarrow> Option.bind cfg apiKey = None"
  by (auto simp add: getApiKey_def prog_defs split: option.splits if_splits)

text \<open>Closing: what the manager's close calls, how it settles, and the shape of the close
  function that createMCPTools returns.\<close>

lemma close_calls_retained:
  "concat (map close_calls (map Context7Close cs)) = map ClientCloseCalled cs"
  by (induction cs) simp_all

lemma first_rejection_None:
  "first_rejection ps = None \<longleftrightarrow> (\<forall>p\<in>set ps. snd p = None)"
  by (induction ps rule: first_rejection.induct) (auto split: option.splits)

lemma count_list_map_inj:
  "inj f \<Longrightarrow> count_list (map f xs) (f x) = count_list xs x"
  by (induction xs) (auto dest: injD)

lemma call_close_manager:
  "call_close (ManagerClose (map Context7Close cs)) s =
     (case snd (promise_all (map client_close cs)) of None \<Rightarrow> Inr () | Some e \<Rightarrow> Inl e,
      s\<lparr>trace := trace s @ map ClientCloseCalled cs\<rparr>)"
  by (simp add: call_close_def comp_def)

lemma promise_all_fulfilled:
  "snd (promise_all ps) = None \<longleftrightarrow> (\<forall>p\<in>set ps. snd p = None)"
  by (cases "first_rejection ps")
     (auto simp add: promise_all_def first_rejection_None [symmetric])

lemma createMCPTools_close_shape:
  "createMCPTools cfg s = (Inr r, s') \<Longrightarrow>
   \<exists>cs. close r = ManagerClose (map Context7Close cs) \<and> length cs = length (enabledSources r)"
proof (cases "Option.bind cfg context7 = Some (Flag False)")
  case True
  assume run: "createMCPTools cfg s = (Inr r, s')"
  from True obtain m where "cfg = Some m" "context7 m = Some (Flag False)"
    by (cases cfg) auto
  with run have "close r = ManagerClose (map Context7Close [])" "enabledSources r = []"
    by (auto simp add: createMCPTools_disabled)
  then show ?thesis by (metis list.size(3) list.simps(8))
next
  case enabled: False
  assume run: "createMCPTools cfg s = (Inr r, s')"
  show ?thesis
  proof (cases "isl (fst (getApiKey (context7Config cfg) s))")
    case True
    with enabled run have "close r = ManagerClose (map Context7Close [])" "enabledSources r = []"
      by (auto simp add: createMCPTools_unavailable)
    then show ?thesis by (metis list.size(3) list.simps(8))
  next
    case False
    from enabled False run show ?thesis
      by (auto simp add: createMCPTools_available createContext7Tools_eq getApiKey_trace Let_def
          split: sum.splits if_splits intro: exI [of _ "[]"] exI [of _ "[c]" for c])
  qed
qed

text \<open>Unless the entry is \<^verbatim>\<open>false\<close>, the first call of createMCPTools is the probe on
  the normalised configuration.\<close>

lemma createMCPTools_first_probe:
  "Option.bind cfg context7 \<noteq> Some (Flag False) \<Longrightarrow>
   take 1 (drop (length (trace s)) (trace (snd (createMCPTools cfg s))))
     = [IsAvailableCalled (context7Config cfg)]"
proof (cases "isl (fst (getApiKey (context7Config cfg) s))")
  case True
  assume "Option.bind cfg context7 \<noteq> Some (Flag False)"
  from this True show ?thesis
    by (simp add: createMCPTools_unavailable)
next
  case False
  assume "Option.bind cfg context7 \<noteq> Some (Flag False)"
  from this False show ?thesis
    by (simp add: createMCPTools_available createContext7Tools_eq getApiKey_trace Let_def
        split: sum.splits)
qed

subsection \<open>Claims about the adapter\<close>

text \<open>
  C5. For every explicit configuration argument, isContext7Available returns a boolean
  and never throws, and the boolean is true exactly when getApiKey succeeds on that
  argument.
\<close>

theorem isContext7Available_iff_getApiKey:
  "\<exists>b s'. isContext7Available cfg s = (Inr b, s') \<and>
     (b \<longleftrightarrow> (\<exists>k. fst (getApiKey cfg s) = Inr k))"
  by (cases "fst (getApiKey cfg s)") (auto simp add: isContext7Available_eq)

theorem isContext7Available_iff_getApiKey_witness:
  "\<exists>b s'. isContext7Available (Some \<lparr>apiKey = Some ''''\<rparr>)
            \<lparr>CONTEXT7_API_KEY = Some ''env-key'',
             mcp_server = (\<lambda>_ _. Inl (ActivationError [])), trace = []\<rparr> = (Inr b, s') \<and> \<not> b"
  using isContext7Available_iff_getApiKey [of "Some \<lparr>apiKey = Some ''''\<rparr>"
       "\<lparr>CONTEXT7_API_KEY = Some ''env-key'',
        mcp_server = (\<lambda>_ _. Inl (ActivationError [])), trace = []\<rparr>"]
  by (simp add: getApiKey_def prog_defs)

text \<open>
  C7, as the code has it. getApiKey throws Context7ApiKeyError exactly when the value it
  resolves is undefined or the empty string, where the resolved value is the explicit
  apiKey when that is defined (even if empty) and the environment value otherwise. It
  throws nothing else, and when it succeeds it returns that non-empty resolved value.
  An explicit empty apiKey is not replaced by the environment value.
\<close>

theorem getApiKey_error_iff_resolved_empty:
  "(fst (getApiKey cfg s) = Inl Context7ApiKeyError \<longleftrightarrow>
      (case Option.bind cfg apiKey of
         Some k \<Rightarrow> k = []
       | None \<Rightarrow> CONTEXT7_API_KEY s = None \<or> CONTEXT7_API_KEY s = Some [])) \<and>
   (\<forall>k. fst (getApiKey cfg s) = Inr k \<longleftrightarrow>
      k \<noteq> [] \<and> (Option.bind cfg apiKey = Some k \<or>
                 Option.bind cfg apiKey = None \<and> CONTEXT7_API_KEY s = Some k)) \<and>
   (\<forall>e. fst (getApiKey cfg s) = Inl e \<longrightarrow> e = Context7ApiKeyError)"
  by (auto simp add: getApiKey_def prog_defs split: option.splits)

theorem getApiKey_error_iff_resolved_empty_witness:
  "fst (getApiKey None
         \<lparr>CONTEXT7_API_KEY = Some ''env-key'',
          mcp_server = (\<lambda>_ _. Inl (ActivationError [])), trace = []\<rparr>) = Inr ''env-key'' \<and>
   fst (getApiKey None
         \<lparr>CONTEXT7_API_KEY = Some '''',
          mcp_server = (\<lambda>_ _. Inl (ActivationError [])), trace = []\<rparr>) = Inl Context7ApiKeyError"
  using getApiKey_error_iff_resolved_empty [of None
       "\<lparr>CONTEXT7_API_KEY = Some ''env-key'',
        mcp_server = (\<lambda>_ _. Inl (ActivationError [])), trace = []\<rparr>"]
    getApiKey_error_iff_resolved_empty [of None
       "\<lparr>CONTEXT7_API_KEY = Some '''',
        mcp_server = (\<lambda>_ _. Inl (ActivationError [])), trace = []\<rparr>"]
  by simp

text \<open>
  C7 as stated fails: with the explicit key \<^verbatim>\<open>''\<close> and CONTEXT7_API_KEY set to a
  non-empty value, the environment value is present, and getApiKey throws
  Context7ApiKeyError all the same.
\<close>

theorem getApiKey_empty_explicit_key_counterexample:
  "fst (getApiKey (Some \<lparr>apiKey = Some ''''\<rparr>)
         \<lparr>CONTEXT7_API_KEY = Some ''env-key'',
          mcp_server = (\<lambda>_ _. Inl (ActivationError [])), trace = []\<rparr>) = Inl Context7ApiKeyError"
  by (simp add: getApiKey_def prog_defs)

text \<open>
  C10. When the explicit configuration carries a non-empty apiKey, getApiKey returns that
  key, isContext7Available returns true, and createContext7Tools has the same outcome and
  makes the same calls, with that key among the arguments of the transport, whatever the
  value of CONTEXT7_API_KEY: two runs that differ only in the environment value agree.
  And two environments can make getApiKey differ only when the explicit key is absent or
  empty.
\<close>

theorem explicit_key_independent_of_environment:
  "(apiKey c = Some k \<and> k \<noteq> [] \<longrightarrow>
      fst (getApiKey (Some c) (s\<lparr>CONTEXT7_API_KEY := env\<rparr>)) = Inr k \<and>
      fst (getApiKey (Some c) (s\<lparr>CONTEXT7_API_KEY := env'\<rparr>)) = Inr k \<and>
      fst (isContext7Available (Some c) (s\<lparr>CONTEXT7_API_KEY := env\<rparr>)) = Inr True \<and>
      fst (isContext7Available (Some c) (s\<lparr>CONTEXT7_API_KEY := env'\<rparr>)) = Inr True \<and>
      fst (createContext7Tools (Some \<lparr>config = Some c, onReady = cb, onError = oe\<rparr>)
             (s\<lparr>CONTEXT7_API_KEY := env\<rparr>)) =
      fst (createContext7Tools (Some \<lparr>config = Some c, onReady = cb, onError = oe\<rparr>)
             (s\<lparr>CONTEXT7_API_KEY := env'\<rparr>)) \<and>
      trace (snd (createContext7Tools (Some \<lparr>config = Some c, onReady = cb, onError = oe\<rparr>)
             (s\<lparr>CONTEXT7_API_KEY := env\<rparr>))) =
      trace s @ [CreateToolsCalled (Some c),
                 ClientCreated ''npx'' [''-y'', ''@upstash/context7-mcp'', ''--api-key'', k]] \<and>
      trace (snd (createContext7Tools (Some \<lparr>config = Some c, onReady = cb, onError = oe\<rparr>)
             (s\<lparr>CONTEXT7_API_KEY := env'\<rparr>))) =
      trace s @ [CreateToolsCalled (Some c),
                 ClientCreated ''npx'' [''-y'', ''@upstash/context7-mcp'', ''--api-key'', k]]) \<and>
   (fst (getApiKey cfg (s\<lparr>CONTEXT7_API_KEY := env\<rparr>)) \<noteq>
    fst (getApiKey cfg (s\<lparr>CONTEXT7_API_KEY := env'\<rparr>)) \<longrightarrow>
      Option.bind cfg apiKey = None \<or> Option.bind cfg apiKey = Some [])"
proof (intro conjI impI)
  assume neq: "fst (getApiKey cfg (s\<lparr>CONTEXT7_API_KEY := env\<rparr>)) \<noteq>
    fst (getApiKey cfg (s\<lparr>CONTEXT7_API_KEY := env'\<rparr>))"
  then show "Option.bind cfg apiKey = None \<or> Option.bind cfg apiKey = Some []"
    by (simp add: getApiKey_env_only_if_undefined)
next
  assume "apiKey c = Some k \<and> k \<noteq> []"
  then have key: "\<And>s. getApiKey (Some c) s = (Inr k, s)"
    by (simp add: getApiKey_explicit)
  show "fst (getApiKey (Some c) (s\<lparr>CONTEXT7_API_KEY := env\<rparr>)) = Inr k"
    by (simp add: key)
  show "fst (getApiKey (Some c) (s\<lparr>CONTEXT7_API_KEY := env'\<rparr>)) = Inr k"
    by (simp add: key)
  show "fst (isContext7Available (Some c) (s\<lparr>CONTEXT7_API_KEY := env\<rparr>)) = Inr True"
    by (simp add: isContext7Available_eq key)
  show "fst (isContext7Available (Some c) (s\<lparr>CONTEXT7_API_KEY := env'\<rparr>)) = Inr True"
    by (simp add: isContext7Available_eq key)
  have run: "\<And>e. createContext7Tools (Some \<lparr>config = Some c, onReady = cb, onError = oe\<rparr>)
             (s\<lparr>CONTEXT7_API_KEY := e\<rparr>) =
      (case mcp_server s ''npx'' [''-y'', ''@upstash/context7-mcp'', ''--api-key'', k] of
         Inl err \<Rightarrow> Inl err
       | Inr cl \<Rightarrow>
           (case cb of
              Some (Some err) \<Rightarrow> Inl err
            | _ \<Rightarrow> (case client_tools cl of
                      Inl err \<Rightarrow> Inl err
                    | Inr ts \<Rightarrow> Inr \<lparr>tools = ts, close = Context7Close cl\<rparr>)),
       s\<lparr>CONTEXT7_API_KEY := e,
         trace := trace s @ [CreateToolsCalled (Some c),
           ClientCreated ''npx'' [''-y'', ''@upstash/context7-mcp'', ''--api-key'', k]]\<rparr>)"
    by (simp add: createContext7Tools_def key prog_defs split: sum.splits option.splits)
  show "fst (createContext7Tools (Some \<lparr>config = Some c, onReady = cb, onError = oe\<rparr>)
             (s\<lparr>CONTEXT7_API_KEY := env\<rparr>)) =
      fst (createContext7Tools (Some \<lparr>config = Some c, onReady = cb, onError = oe\<rparr>)
             (s\<lparr>CONTEXT7_API_KEY := env'\<rparr>))"
    by (simp add: run)
  show "trace (snd (createContext7Tools (Some \<lparr>config = Some c, onReady = cb, onError = oe\<rparr>)
             (s\<lparr>CONTEXT7_API_KEY := env\<rparr>))) =
      trace s @ [CreateToolsCalled (Some c),
                 ClientCreated ''npx'' [''-y'', ''@upstash/context7-mcp'', ''--api-key'', k]]"
    by (simp add: run)
  show "trace (snd (createContext7Tools (Some \<lparr>config = Some c, onReady = cb, onError = oe\<rparr>)
             (s\<lparr>CONTEXT7_API_KEY := env'\<rparr>))) =
      trace s @ [CreateToolsCalled (Some c),
                 ClientCreated ''npx'' [''-y'', ''@upstash/context7-mcp'', ''--api-key'', k]]"
    by (simp add: run)
qed

theorem explicit_key_independent_of_environment_witness:
  "apiKey \<lparr>apiKey = Some ''explicit''\<rparr> = Some ''explicit'' \<and> ''explicit'' \<noteq> [] \<and>
   fst (getApiKey (Some \<lparr>apiKey = Some ''explicit''\<rparr>)
     (\<lparr>CONTEXT7_API_KEY = None, mcp_server = (\<lambda>_ _. Inl (ActivationError [])), trace = []\<rparr>
        \<lparr>CONTEXT7_API_KEY := Some ''a''\<rparr>)) = Inr ''explicit'' \<and>
   fst (getApiKey (Some \<lparr>apiKey = Some ''explicit''\<rparr>)
     (\<lparr>CONTEXT7_API_KEY = None, mcp_server = (\<lambda>_ _. Inl (ActivationError [])), trace = []\<rparr>
        \<lparr>CONTEXT7_API_KEY := Some ''b''\<rparr>)) = Inr ''explicit'' \<and>
   fst (getApiKey (None :: Context7Config option)
     (\<lparr>CONTEXT7_API_KEY = None, mcp_server = (\<lambda>_ _. Inl (ActivationError [])), trace = []\<rparr>
        \<lparr>CONTEXT7_API_KEY := Some ''a''\<rparr>)) \<noteq>
   fst (getApiKey (None :: Context7Config option)
     (\<lparr>CONTEXT7_API_KEY = None, mcp_server = (\<lambda>_ _. Inl (ActivationError [])), trace = []\<rparr>
        \<lparr>CONTEXT7_API_KEY := Some ''b''\<rparr>)) \<and>
   Option.bind (None :: Context7Config option) apiKey = None"
proof -
  have explicit: "apiKey \<lparr>apiKey = Some ''explicit''\<rparr> = Some ''explicit'' \<and> ''explicit'' \<noteq> []"
    by simp
  have differ:
    "fst (getApiKey (None :: Context7Config option)
      (\<lparr>CONTEXT7_API_KEY = None, mcp_server = (\<lambda>_ _. Inl (ActivationError [])), trace = []\<rparr>
        \<lparr>CONTEXT7_API_KEY := Some ''a''\<rparr>)) \<noteq>
     fst (getApiKey (None :: Context7Config option)
      (\<lparr>CONTEXT7_API_KEY = None, mcp_server = (\<lambda>_ _. Inl (ActivationError [])), trace = []\<rparr>
        \<lparr>CONTEXT7_API_KEY := Some ''b''\<rparr>))"
    by (simp add: getApiKey_def prog_defs)
  from explicit_key_independent_of_environment [where c = "\<lparr>apiKey = Some ''explicit''\<rparr>" and k = "''explicit''"
      and s = "\<lparr>CONTEXT7_API_KEY = None, mcp_server = (\<lambda>_ _. Inl (ActivationError [])), trace = []\<rparr>"
      and env = "Some ''a''" and env' = "Some ''b''" and cb = None and oe = None
      and cfg = "None :: Context7Config option"]
    explicit differ
  show ?thesis by simp
qed

subsection \<open>Claims about the manager\<close>

text \<open>
  C1. For every configuration and every state of the environment and of the MCP server,
  createMCPTools returns a result and does not throw. In particular, when activation
  (createContext7Tools on the configuration the manager passes) throws, whatever the
  error, the result has no enabled source and an empty tools mapping.
\<close>

theorem createMCPTools_never_throws:
  "\<exists>r s'. createMCPTools cfg s = (Inr r, s') \<and>
     (isl (fst (createContext7Tools
                  (Some \<lparr>config = context7Config cfg, onReady = None, onError = None\<rparr>) s)) \<longrightarrow>
      enabledSources r = [] \<and> tools r = Map.empty)"
proof (cases "Option.bind cfg context7 = Some (Flag False)")
  case True
  then obtain m where "cfg = Some m" "context7 m = Some (Flag False)"
    by (cases cfg) auto
  then show ?thesis
    by (simp add: createMCPTools_disabled)
next
  case enabled: False
  show ?thesis
  proof (cases "isl (fst (getApiKey (context7Config cfg) s))")
    case True
    with enabled show ?thesis
      by (simp add: createMCPTools_unavailable)
  next
    case False
    define opts where
      "opts = Some \<lparr>config = context7Config cfg, onReady = None, onError = None\<rparr>"
    define s1 where
      "s1 = s\<lparr>trace := trace s @
              (if Option.bind cfg context7 = None
               then [IsAvailableCalled (context7Config cfg), IsAvailableCalled (context7Config cfg)]
               else [IsAvailableCalled (context7Config cfg)])\<rparr>"
    have same: "fst (createContext7Tools opts s1) = fst (createContext7Tools opts s)"
      unfolding opts_def s1_def by (rule createContext7Tools_fst_trace)
    obtain res s2 where run: "createContext7Tools opts s1 = (res, s2)"
      by (cases "createContext7Tools opts s1")
    from enabled False have eq:
      "createMCPTools cfg s =
         (case createContext7Tools opts s1 of
            (Inl e, s2) \<Rightarrow>
              (Inr \<lparr>tools = Map.empty, close = ManagerClose [], enabledSources = []\<rparr>,
               s2\<lparr>trace := trace s2 @ [Warned ''Failed to connect to Context7 MCP server:'' e]\<rparr>)
          | (Inr c7, s2) \<Rightarrow>
              (Inr \<lparr>tools = tools c7, close = ManagerClose [close c7],
                    enabledSources = [''context7'']\<rparr>, s2))"
      unfolding opts_def s1_def by (rule createMCPTools_available)
    show ?thesis
    proof (cases res)
      case (Inl e)
      with run eq show ?thesis by simp
    next
      case (Inr c7)
      with run have "fst (createContext7Tools opts s1) = Inr c7" by simp
      with same have "\<not> isl (fst (createContext7Tools opts s))"
        by (metis isl_def sum.distinct(1))
      with Inr run eq show ?thesis by (simp add: opts_def)
    qed
  qed
qed

theorem createMCPTools_never_throws_witness:
  "isl (fst (createContext7Tools
          (Some \<lparr>config = context7Config (Some \<lparr>context7 = Some (Settings \<lparr>apiKey = Some ''x''\<rparr>)\<rparr>),
                 onReady = None, onError = None\<rparr>)
          \<lparr>CONTEXT7_API_KEY = None,
           mcp_server = (\<lambda>_ _. Inl (ActivationError ''spawn npx ENOENT'')),
           trace = []\<rparr>)) \<and>
   (\<exists>r s'. createMCPTools (Some \<lparr>context7 = Some (Settings \<lparr>apiKey = Some ''x''\<rparr>)\<rparr>)
             \<lparr>CONTEXT7_API_KEY = None,
              mcp_server = (\<lambda>_ _. Inl (ActivationError ''spawn npx ENOENT'')),
              trace = []\<rparr> = (Inr r, s') \<and>
           enabledSources r = [] \<and> tools r = Map.empty)"
proof -
  have throws:
    "isl (fst (createContext7Tools
          (Some \<lparr>config = context7Config (Some \<lparr>context7 = Some (Settings \<lparr>apiKey = Some ''x''\<rparr>)\<rparr>),
                 onReady = None, onError = None\<rparr>)
          \<lparr>CONTEXT7_API_KEY = None,
           mcp_server = (\<lambda>_ _. Inl (ActivationError ''spawn npx ENOENT'')),
           trace = []\<rparr>))"
    by (simp add: createContext7Tools_eq getApiKey_def context7Config_def prog_defs)
  with createMCPTools_never_throws
         [of "Some \<lparr>context7 = Some (Settings \<lparr>apiKey = Some ''x''\<rparr>)\<rparr>"
             "\<lparr>CONTEXT7_API_KEY = None,
              mcp_server = (\<lambda>_ _. Inl (ActivationError ''spawn npx ENOENT'')),
              trace = []\<rparr>"]
  show ?thesis by blast
qed

text \<open>
  C2. When the entry of the provider is \<^verbatim>\<open>false\<close>, createMCPTools returns a result
  whose enabledSources does not contain the provider, and the state it leaves is the
  state it found: the call trace has gained no entry, so neither isContext7Available
  nor createContext7Tools has been called.
\<close>

theorem createMCPTools_disabled_calls_nothing:
  "context7 m = Some (Flag False) \<Longrightarrow>
   \<exists>r s'. createMCPTools (Some m) s = (Inr r, s') \<and>
     ''context7'' \<notin> set (enabledSources r) \<and> trace s' = trace s \<and> s' = s"
  by (simp add: createMCPTools_disabled)

theorem createMCPTools_disabled_calls_nothing_witness:
  "\<exists>r s'. createMCPTools (Some \<lparr>context7 = Some (Flag False)\<rparr>)
       \<lparr>CONTEXT7_API_KEY = Some ''env-key'', mcp_server = (\<lambda>_ _. Inl (ActivationError [])),
        trace = []\<rparr> = (Inr r, s') \<and>
     ''context7'' \<notin> set (enabledSources r) \<and> trace s' = []"
  using createMCPTools_disabled_calls_nothing [of "\<lparr>context7 = Some (Flag False)\<rparr>"
       "\<lparr>CONTEXT7_API_KEY = Some ''env-key'', mcp_server = (\<lambda>_ _. Inl (ActivationError [])),
        trace = []\<rparr>"]
  by auto

text \<open>
  C9. createMCPTools with the entry \<^verbatim>\<open>true\<close> and createMCPTools with the entry
  \<^verbatim>\<open>{}\<close> are the same function of the state: the same result, the same calls. The
  entry \<^verbatim>\<open>true\<close> is normalised to the empty settings record, the configuration that
  the entry \<^verbatim>\<open>{}\<close> gives too; shouldEnableContext7 is true for both without a probe;
  and the first call that createMCPTools makes is the availability check on that empty
  record.
\<close>

theorem createMCPTools_true_is_empty_settings:
  "createMCPTools (Some \<lparr>context7 = Some (Flag True)\<rparr>) s =
   createMCPTools (Some \<lparr>context7 = Some (Settings \<lparr>apiKey = None\<rparr>)\<rparr>) s \<and>
   context7Config (Some \<lparr>context7 = Some (Flag True)\<rparr>) =
   context7Config (Some \<lparr>context7 = Some (Settings \<lparr>apiKey = None\<rparr>)\<rparr>) \<and>
   shouldEnableContext7 (Some \<lparr>context7 = Some (Flag True)\<rparr>) s =
   shouldEnableContext7 (Some \<lparr>context7 = Some (Settings \<lparr>apiKey = None\<rparr>)\<rparr>) s \<and>
   context7Config (Some \<lparr>context7 = Some (Flag True)\<rparr>) = Some \<lparr>apiKey = None\<rparr> \<and>
   context7Config (Some \<lparr>context7 = Some (Settings \<lparr>apiKey = None\<rparr>)\<rparr>) = Some \<lparr>apiKey = None\<rparr> \<and>
   shouldEnableContext7 (Some \<lparr>context7 = Some (Flag True)\<rparr>) s = (Inr True, s) \<and>
   take 1 (drop (length (trace s))
             (trace (snd (createMCPTools (Some \<lparr>context7 = Some (Flag True)\<rparr>) s))))
     = [IsAvailableCalled (Some \<lparr>apiKey = None\<rparr>)]"
proof -
  have same: "createMCPTools (Some \<lparr>context7 = Some (Flag True)\<rparr>) s =
      createMCPTools (Some \<lparr>context7 = Some (Settings \<lparr>apiKey = None\<rparr>)\<rparr>) s"
    unfolding createMCPTools_def context7Config_true context7Config_settings
    by (simp add: shouldEnableContext7_def)
  have should: "shouldEnableContext7 (Some \<lparr>context7 = Some (Flag True)\<rparr>) s = (Inr True, s)"
    "shouldEnableContext7 (Some \<lparr>context7 = Some (Settings \<lparr>apiKey = None\<rparr>)\<rparr>) s = (Inr True, s)"
    by (simp_all add: shouldEnableContext7_def ret_def)
  have probe: "take 1 (drop (length (trace s))
             (trace (snd (createMCPTools (Some \<lparr>context7 = Some (Flag True)\<rparr>) s))))
     = [IsAvailableCalled (Some \<lparr>apiKey = None\<rparr>)]"
    using createMCPTools_first_probe [of "Some \<lparr>context7 = Some (Flag True)\<rparr>" s]
    by (simp add: context7Config_true)
  from same should probe show ?thesis
    by (simp add: context7Config_true context7Config_settings)
qed

theorem createMCPTools_true_is_empty_settings_witness:
  "createMCPTools (Some \<lparr>context7 = Some (Flag True)\<rparr>)
     \<lparr>CONTEXT7_API_KEY = Some ''env-key'',
      mcp_server = (\<lambda>_ _. Inr \<lparr>client_tools = Inr [''resolve-library-id'' \<mapsto> ''tool''], client_close = (0, None)\<rparr>),
      trace = []\<rparr> =
   createMCPTools (Some \<lparr>context7 = Some (Settings \<lparr>apiKey = None\<rparr>)\<rparr>)
     \<lparr>CONTEXT7_API_KEY = Some ''env-key'',
      mcp_server = (\<lambda>_ _. Inr \<lparr>client_tools = Inr [''resolve-library-id'' \<mapsto> ''tool''], client_close = (0, None)\<rparr>),
      trace = []\<rparr> \<and>
   context7Config (Some \<lparr>context7 = Some (Flag True)\<rparr>) = Some \<lparr>apiKey = None\<rparr> \<and>
   take 1 (trace (snd (createMCPTools (Some \<lparr>context7 = Some (Flag True)\<rparr>)
     \<lparr>CONTEXT7_API_KEY = Some ''env-key'',
      mcp_server = (\<lambda>_ _. Inr \<lparr>client_tools = Inr [''resolve-library-id'' \<mapsto> ''tool''], client_close = (0, None)\<rparr>),
      trace = []\<rparr>))) = [IsAvailableCalled (Some \<lparr>apiKey = None\<rparr>)]"
  using createMCPTools_true_is_empty_settings [of
     "\<lparr>CONTEXT7_API_KEY = Some ''env-key'',
      mcp_server = (\<lambda>_ _. Inr \<lparr>client_tools = Inr [''resolve-library-id'' \<mapsto> ''tool''], client_close = (0, None)\<rparr>),
      trace = []\<rparr>"]
  by (elim conjE) simp

text \<open>
  C8. getAvailableMCPTools returns a list that contains the provider's identifier exactly
  when isContext7Available, called with no configuration, returns true; it contains
  nothing else. The environment and the server are as before; only the call trace has
  gained the entry of the one probe.
\<close>

theorem getAvailableMCPTools_iff_available:
  "\<exists>ids s'. getAvailableMCPTools s = (Inr ids, s') \<and>
     (''context7'' \<in> set ids \<longleftrightarrow> fst (isContext7Available None s) = Inr True) \<and>
     ids = (if fst (isContext7Available None s) = Inr True then [''context7''] else []) \<and>
     CONTEXT7_API_KEY s' = CONTEXT7_API_KEY s \<and> mcp_server s' = mcp_server s \<and>
     trace s' = trace s @ [IsAvailableCalled None]"
  by (simp add: getAvailableMCPTools_def isContext7Available_eq then_do_def ret_def)

theorem getAvailableMCPTools_iff_available_witness:
  "fst (getAvailableMCPTools
     \<lparr>CONTEXT7_API_KEY = Some ''env-key'', mcp_server = (\<lambda>_ _. Inl (ActivationError [])),
      trace = []\<rparr>) = Inr [''context7''] \<and>
   fst (getAvailableMCPTools
     \<lparr>CONTEXT7_API_KEY = None, mcp_server = (\<lambda>_ _. Inl (ActivationError [])),
      trace = []\<rparr>) = Inr []"
  using getAvailableMCPTools_iff_available [of
     "\<lparr>CONTEXT7_API_KEY = Some ''env-key'', mcp_server = (\<lambda>_ _. Inl (ActivationError [])),
      trace = []\<rparr>"]
    getAvailableMCPTools_iff_available [of
     "\<lparr>CONTEXT7_API_KEY = None, mcp_server = (\<lambda>_ _. Inl (ActivationError [])),
      trace = []\<rparr>"]
  by (auto simp add: isContext7Available_eq getApiKey_def prog_defs)

text \<open>
  C4. When there is no entry for the provider (no configuration, or a configuration
  whose context7 is undefined), createMCPTools calls createContext7Tools, once and with
  no configuration, exactly when isContext7Available with no configuration returns true.
\<close>

theorem createMCPTools_absent_attempts_iff_available:
  "Option.bind cfg context7 = None \<Longrightarrow>
   (CreateToolsCalled None \<in> set (drop (length (trace s)) (trace (snd (createMCPTools cfg s))))
      \<longleftrightarrow> fst (isContext7Available None s) = Inr True) \<and>
   count_list (drop (length (trace s)) (trace (snd (createMCPTools cfg s)))) (CreateToolsCalled None)
      = (if fst (isContext7Available None s) = Inr True then 1 else 0) \<and>
   (\<forall>c. CreateToolsCalled c \<in> set (drop (length (trace s)) (trace (snd (createMCPTools cfg s))))
      \<longrightarrow> c = None)"
proof (cases "isl (fst (getApiKey None s))")
  case True
  assume absent: "Option.bind cfg context7 = None"
  with True show ?thesis
    by (simp add: createMCPTools_unavailable context7Config_absent isContext7Available_eq)
next
  case False
  assume absent: "Option.bind cfg context7 = None"
  with False show ?thesis
    by (simp add: createMCPTools_available context7Config_absent isContext7Available_eq
          createContext7Tools_eq getApiKey_trace Let_def split: sum.splits)
qed

theorem createMCPTools_absent_attempts_iff_available_witness:
  "Option.bind None context7 = None \<and>
   CreateToolsCalled None \<in> set (trace (snd (createMCPTools None
     \<lparr>CONTEXT7_API_KEY = Some ''env-key'', mcp_server = (\<lambda>_ _. Inl (ActivationError [])),
      trace = []\<rparr>))) \<and>
   Option.bind (Some \<lparr>context7 = None\<rparr>) context7 = None \<and>
   CreateToolsCalled None \<notin> set (trace (snd (createMCPTools (Some \<lparr>context7 = None\<rparr>)
     \<lparr>CONTEXT7_API_KEY = None, mcp_server = (\<lambda>_ _. Inl (ActivationError [])),
      trace = []\<rparr>)))"
proof -
  have a: "Option.bind None context7 = None" by simp
  have b: "Option.bind (Some \<lparr>context7 = None\<rparr>) context7 = None" by simp
  from createMCPTools_absent_attempts_iff_available [OF a, of
     "\<lparr>CONTEXT7_API_KEY = Some ''env-key'', mcp_server = (\<lambda>_ _. Inl (ActivationError [])),
      trace = []\<rparr>"]
    createMCPTools_absent_attempts_iff_available [OF b, of
     "\<lparr>CONTEXT7_API_KEY = None, mcp_server = (\<lambda>_ _. Inl (ActivationError [])),
      trace = []\<rparr>"]
  show ?thesis
    by (simp add: isContext7Available_eq getApiKey_def prog_defs)
qed

text \<open>
  C3, as the code has it. When the provider is requested explicitly (its entry is
  \<^verbatim>\<open>true\<close> or a settings record) and getApiKey cannot resolve a key, the manager's
  availability check fails: createMCPTools probes once, does not call
  createContext7Tools, emits no warning, and returns a result without the provider and
  without throwing. createContext7Tools itself, on that configuration, throws
  Context7ApiKeyError.
\<close>

theorem createMCPTools_explicit_unresolved_skipped:
  "context7 m = Some e \<Longrightarrow> e \<noteq> Flag False \<Longrightarrow>
   isl (fst (getApiKey (context7Config (Some m)) s)) \<Longrightarrow>
   createMCPTools (Some m) s =
     (Inr \<lparr>tools = Map.empty, close = ManagerClose [], enabledSources = []\<rparr>,
      s\<lparr>trace := trace s @ [IsAvailableCalled (context7Config (Some m))]\<rparr>) \<and>
   fst (createContext7Tools
          (Some \<lparr>config = context7Config (Some m), onReady = None, onError = None\<rparr>) s)
     = Inl Context7ApiKeyError"
proof -
  assume entry: "context7 m = Some e" "e \<noteq> Flag False"
    and unresolved: "isl (fst (getApiKey (context7Config (Some m)) s))"
  from entry have "Option.bind (Some m) context7 \<noteq> Some (Flag False)" by simp
  from this unresolved have skipped:
    "createMCPTools (Some m) s =
       (Inr \<lparr>tools = Map.empty, close = ManagerClose [], enabledSources = []\<rparr>,
        s\<lparr>trace := trace s @ [IsAvailableCalled (context7Config (Some m))]\<rparr>)"
    by (rule createMCPTools_unavailable)
  from unresolved obtain err where "fst (getApiKey (context7Config (Some m)) s) = Inl err"
    by (auto simp add: isl_def)
  moreover from this have "err = Context7ApiKeyError" by (rule getApiKey_error)
  ultimately have
    "fst (createContext7Tools
            (Some \<lparr>config = context7Config (Some m), onReady = None, onError = None\<rparr>) s)
       = Inl Context7ApiKeyError"
    by (simp add: createContext7Tools_eq)
  with skipped show ?thesis by simp
qed

theorem createMCPTools_explicit_unresolved_skipped_witness:
  "context7 \<lparr>context7 = Some (Settings \<lparr>apiKey = Some ''''\<rparr>)\<rparr> = Some (Settings \<lparr>apiKey = Some ''''\<rparr>) \<and>
   Settings \<lparr>apiKey = Some ''''\<rparr> \<noteq> Flag False \<and>
   isl (fst (getApiKey (context7Config (Some \<lparr>context7 = Some (Settings \<lparr>apiKey = Some ''''\<rparr>)\<rparr>))
     \<lparr>CONTEXT7_API_KEY = Some ''env-key'', mcp_server = (\<lambda>_ _. Inl (ActivationError [])),
      trace = []\<rparr>)) \<and>
   createMCPTools (Some \<lparr>context7 = Some (Settings \<lparr>apiKey = Some ''''\<rparr>)\<rparr>)
     \<lparr>CONTEXT7_API_KEY = Some ''env-key'', mcp_server = (\<lambda>_ _. Inl (ActivationError [])),
      trace = []\<rparr> =
     (Inr \<lparr>tools = Map.empty, close = ManagerClose [], enabledSources = []\<rparr>,
      \<lparr>CONTEXT7_API_KEY = Some ''env-key'', mcp_server = (\<lambda>_ _. Inl (ActivationError [])),
       trace = [IsAvailableCalled (Some \<lparr>apiKey = Some ''''\<rparr>)]\<rparr>)"
proof -
  have a: "context7 \<lparr>context7 = Some (Settings \<lparr>apiKey = Some ''''\<rparr>)\<rparr> = Some (Settings \<lparr>apiKey = Some ''''\<rparr>)"
    by simp
  have b: "Settings \<lparr>apiKey = Some ''''\<rparr> \<noteq> Flag False" by simp
  have c: "isl (fst (getApiKey (context7Config (Some \<lparr>context7 = Some (Settings \<lparr>apiKey = Some ''''\<rparr>)\<rparr>))
     \<lparr>CONTEXT7_API_KEY = Some ''env-key'', mcp_server = (\<lambda>_ _. Inl (ActivationError [])),
      trace = []\<rparr>))"
    by (simp add: context7Config_settings getApiKey_def prog_defs)
  from createMCPTools_explicit_unresolved_skipped [OF a b c] a b c
  show ?thesis by (simp add: context7Config_settings)
qed

text \<open>
  C3 as stated fails: with the entry \<^verbatim>\<open>true\<close> and no key in the environment, no key
  can be resolved, and the call trace of createMCPTools holds the probe alone: no call of
  createContext7Tools, from which the error would propagate, and no warning.
\<close>

theorem createMCPTools_explicit_unresolved_counterexample:
  "fst (getApiKey (context7Config (Some \<lparr>context7 = Some (Flag True)\<rparr>))
          \<lparr>CONTEXT7_API_KEY = None, mcp_server = (\<lambda>_ _. Inl (ActivationError [])), trace = []\<rparr>)
     = Inl Context7ApiKeyError \<and>
   trace (snd (createMCPTools (Some \<lparr>context7 = Some (Flag True)\<rparr>)
          \<lparr>CONTEXT7_API_KEY = None, mcp_server = (\<lambda>_ _. Inl (ActivationError [])), trace = []\<rparr>))
     = [IsAvailableCalled (Some \<lparr>apiKey = None\<rparr>)] \<and>
   CreateToolsCalled (Some \<lparr>apiKey = None\<rparr>)
     \<notin> set (trace (snd (createMCPTools (Some \<lparr>context7 = Some (Flag True)\<rparr>)
          \<lparr>CONTEXT7_API_KEY = None, mcp_server = (\<lambda>_ _. Inl (ActivationError [])), trace = []\<rparr>))) \<and>
   Warned ''Failed to connect to Context7 MCP server:'' Context7ApiKeyError
     \<notin> set (trace (snd (createMCPTools (Some \<lparr>context7 = Some (Flag True)\<rparr>)
          \<lparr>CONTEXT7_API_KEY = None, mcp_server = (\<lambda>_ _. Inl (ActivationError [])), trace = []\<rparr>)))"
  by (simp add: createMCPTools_def shouldEnableContext7_def context7Config_true
        isContext7Available_def getApiKey_def prog_defs)

subsection \<open>Claims about closing\<close>

text \<open>
  C6. Calling the close function of the manager once, over the retained close functions
  of any clients, calls the close of each of them, in order, and nothing else: each as
  many times as it is retained, whether or not any of the closes is rejected. The
  combined close is fulfilled exactly when every retained close is; with nothing
  retained it is fulfilled and changes nothing. The close function of every result of
  createMCPTools has this shape, with as many retained closes as enabled sources.
\<close>

theorem manager_close_calls_each_retained_once:
  "trace (snd (call_close (ManagerClose (map Context7Close cs)) s))
     = trace s @ map ClientCloseCalled cs \<and>
   (\<forall>c. count_list (drop (length (trace s))
                      (trace (snd (call_close (ManagerClose (map Context7Close cs)) s))))
           (ClientCloseCalled c) = count_list cs c) \<and>
   (fst (call_close (ManagerClose (map Context7Close cs)) s) = Inr () \<longleftrightarrow>
      (\<forall>c\<in>set cs. snd (client_close c) = None)) \<and>
   call_close (ManagerClose []) s = (Inr (), s) \<and>
   (\<forall>cfg s0 r s1. createMCPTools cfg s0 = (Inr r, s1) \<longrightarrow>
      (\<exists>cs'. close r = ManagerClose (map Context7Close cs') \<and>
             length cs' = length (enabledSources r)))"
proof -
  have inj: "inj ClientCloseCalled" by (simp add: inj_def)
  have calls: "trace (snd (call_close (ManagerClose (map Context7Close cs)) s))
     = trace s @ map ClientCloseCalled cs"
    by (simp add: call_close_manager)
  have outcome: "fst (call_close (ManagerClose (map Context7Close cs)) s) = Inr () \<longleftrightarrow>
      (\<forall>c\<in>set cs. snd (client_close c) = None)"
    using promise_all_fulfilled [of "map client_close cs"]
    by (cases "snd (promise_all (map client_close cs))") (auto simp add: call_close_manager)
  have empty: "call_close (ManagerClose []) s = (Inr (), s)"
    by (simp add: call_close_def promise_all_def)
  from calls outcome empty inj createMCPTools_close_shape show ?thesis
    by (simp add: count_list_map_inj)
qed

theorem manager_close_calls_each_retained_once_witness:
  "trace (snd (call_close
      (ManagerClose (map Context7Close
         [\<lparr>client_tools = Inr Map.empty, client_close = (1, Some (CloseError ''EPIPE''))\<rparr>,
          \<lparr>client_tools = Inr Map.empty, client_close = (2, None)\<rparr>]))
      \<lparr>CONTEXT7_API_KEY = None, mcp_server = (\<lambda>_ _. Inl (ActivationError [])), trace = []\<rparr>))
   = [ClientCloseCalled \<lparr>client_tools = Inr Map.empty, client_close = (1, Some (CloseError ''EPIPE''))\<rparr>,
      ClientCloseCalled \<lparr>client_tools = Inr Map.empty, client_close = (2, None)\<rparr>] \<and>
   fst (call_close
      (ManagerClose (map Context7Close
         [\<lparr>client_tools = Inr Map.empty, client_close = (1, Some (CloseError ''EPIPE''))\<rparr>,
          \<lparr>client_tools = Inr Map.empty, client_close = (2, None)\<rparr>]))
      \<lparr>CONTEXT7_API_KEY = None, mcp_server = (\<lambda>_ _. Inl (ActivationError [])), trace = []\<rparr>)
   \<noteq> Inr () \<and>
   createMCPTools None
      \<lparr>CONTEXT7_API_KEY = Some ''env-key'',
       mcp_server = (\<lambda>_ _. Inr \<lparr>client_tools = Inr Map.empty, client_close = (2, None)\<rparr>),
       trace = []\<rparr> =
     (Inr \<lparr>tools = Map.empty,
           close = ManagerClose [Context7Close \<lparr>client_tools = Inr Map.empty, client_close = (2, None)\<rparr>],
           enabledSources = [''context7'']\<rparr>,
      \<lparr>CONTEXT7_API_KEY = Some ''env-key'',
       mcp_server = (\<lambda>_ _. Inr \<lparr>client_tools = Inr Map.empty, client_close = (2, None)\<rparr>),
       trace = [IsAvailableCalled None, IsAvailableCalled None, CreateToolsCalled None,
                ClientCreated ''npx'' [''-y'', ''@upstash/context7-mcp'', ''--api-key'', ''env-key'']]\<rparr>) \<and>
   (\<exists>cs'. ManagerClose [Context7Close \<lparr>client_tools = Inr Map.empty, client_close = (2, None)\<rparr>]
            = ManagerClose (map Context7Close cs') \<and> length cs' = length [''context7''])"
proof -
  have run: "createMCPTools None
      \<lparr>CONTEXT7_API_KEY = Some ''env-key'',
       mcp_server = (\<lambda>_ _. Inr \<lparr>client_tools = Inr Map.empty, client_close = (2, None)\<rparr>),
       trace = []\<rparr> =
     (Inr \<lparr>tools = Map.empty,
           close = ManagerClose [Context7Close \<lparr>client_tools = Inr Map.empty, client_close = (2, None)\<rparr>],
           enabledSources = [''context7'']\<rparr>,
      \<lparr>CONTEXT7_API_KEY = Some ''env-key'',
       mcp_server = (\<lambda>_ _. Inr \<lparr>client_tools = Inr Map.empty, client_close = (2, None)\<rparr>),
       trace = [IsAvailableCalled None, IsAvailableCalled None, CreateToolsCalled None,
                ClientCreated ''npx'' [''-y'', ''@upstash/context7-mcp'', ''--api-key'', ''env-key'']]\<rparr>)"
    by (simp add: createMCPTools_def shouldEnableContext7_def context7Config_def
          isContext7Available_def createContext7Tools_def getApiKey_def prog_defs)
  from manager_close_calls_each_retained_once [of
     "[\<lparr>client_tools = Inr Map.empty, client_close = (1, Some (CloseError ''EPIPE''))\<rparr>,
       \<lparr>client_tools = Inr Map.empty, client_close = (2, None)\<rparr>]"
     "\<lparr>CONTEXT7_API_KEY = None, mcp_server = (\<lambda>_ _. Inl (ActivationError [])), trace = []\<rparr>"]
  have general:
    "trace (snd (call_close
      (ManagerClose (map Context7Close
         [\<lparr>client_tools = Inr Map.empty, client_close = (1, Some (CloseError ''EPIPE''))\<rparr>,
          \<lparr>client_tools = Inr Map.empty, client_close = (2, None)\<rparr>]))
      \<lparr>CONTEXT7_API_KEY = None, mcp_server = (\<lambda>_ _. Inl (ActivationError [])), trace = []\<rparr>))
     = [ClientCloseCalled \<lparr>client_tools = Inr Map.empty, client_close = (1, Some (CloseError ''EPIPE''))\<rparr>,
        ClientCloseCalled \<lparr>client_tools = Inr Map.empty, client_close = (2, None)\<rparr>]"
    "fst (call_close
      (ManagerClose (map Context7Close
         [\<lparr>client_tools = Inr Map.empty, client_close = (1, Some (CloseError ''EPIPE''))\<rparr>,
          \<lparr>client_tools = Inr Map.empty, client_close = (2, None)\<rparr>]))
      \<lparr>CONTEXT7_API_KEY = None, mcp_server = (\<lambda>_ _. Inl (ActivationError [])), trace = []\<rparr>)
     \<noteq> Inr ()"
    and shape: "\<forall>cfg s0 r s1. createMCPTools cfg s0 = (Inr r, s1) \<longrightarrow>
      (\<exists>cs'. close r = ManagerClose (map Context7Close cs') \<and>
             length cs' = length (enabledSources r))"
    by simp_all
  from shape run have
    "\<exists>cs'. ManagerClose [Context7Close \<lparr>client_tools = Inr Map.empty, client_close = (2, None)\<rparr>]
            = ManagerClose (map Context7Close cs') \<and> length cs' = length [''context7'']"
    by fastforce
  with general run show ?thesis by simp
qed

end
